theory Spec2Isabelle
  imports Main "HOL-Library.Multiset"
begin

section \<open>Python values, errors and arrays\<close>

text \<open>
  The module \<^verbatim>\<open>read_FVCOM_results.py\<close> holds two functions, \<^verbatim>\<open>readFVCOM\<close> and
  \<^verbatim>\<open>getSurfaceElevation\<close>. Both are embedded here as HOL functions. Every exception the
  source can raise is a value of \<open>error\<close>; a function that may raise returns
  \<open>error + 'a\<close> with \<open>Inl\<close> for the exception.
\<close>

datatype error =
    ImportError string
  | IOError string
  | KeyError string
  | IndexError
  | ValueError
  | TypeError
  | SyntaxError
  | NotModelled

text \<open>
  An n-dimensional array is its shape and its contents, read at an index tuple. Only the
  entries at index tuples inside the shape are contents of the array.
\<close>

record 'a ndarray =
  shape :: "nat list"
  elem :: "nat list \<Rightarrow> 'a"

text \<open>
  What the interpreter can import: \<^verbatim>\<open>from netCDF4 import Dataset\<close> and
  \<^verbatim>\<open>import numpy as np\<close> succeed exactly when the library is installed.
\<close>

record environment =
  netCDF4_installed :: bool
  numpy_installed :: bool

section \<open>getSurfaceElevation\<close>

text \<open>
  An entry of the index list \<^verbatim>\<open>idx\<close>: a Python integer, or the float not-a-number that
  marks a missing location.
\<close>

datatype pyindex = PyInt int | PyNaN

text \<open>
  \<^verbatim>\<open>np.isnan(i)\<close> converts a Python integer to a 64-bit array scalar first. An integer
  that fits neither \<^verbatim>\<open>int64\<close> nor \<^verbatim>\<open>uint64\<close> becomes an object scalar, on which
  \<^verbatim>\<open>isnan\<close> raises \<^verbatim>\<open>TypeError\<close>.
\<close>

definition np_isnan :: "pyindex \<Rightarrow> error + bool" where
  "np_isnan i =
     (case i of
        PyNaN \<Rightarrow> Inr True
      | PyInt j \<Rightarrow> if - (2 ^ 63) \<le> j \<and> j < 2 ^ 64 then Inr False else Inl TypeError)"

text \<open>
  \<^verbatim>\<open>np.empty(shp)\<close> allocates an array of 64-bit floats without initialising it: the
  array holds whatever the memory held, read as floats. That content is the parameter
  \<open>uninit\<close>. The type \<open>'f\<close> of its entries stands for the 64-bit floats throughout.
\<close>

definition np_empty :: "nat list \<Rightarrow> (nat list \<Rightarrow> 'f) \<Rightarrow> 'f ndarray" where
  "np_empty shp uninit = \<lparr>shape = shp, elem = uninit\<rparr>"

text \<open>
  Python's index normalisation on an axis of extent \<open>n\<close>: a negative index counts from
  the end, and an index outside \<open>-n \<le> i < n\<close> raises \<^verbatim>\<open>IndexError\<close>.
\<close>

definition py_index :: "nat \<Rightarrow> int \<Rightarrow> error + nat" where
  "py_index n i =
     (let j = (if i < 0 then i + int n else i)
      in if 0 \<le> j \<and> j < int n then Inr (nat j) else Inl IndexError)"

text \<open>
  \<^verbatim>\<open>Z[:,i]\<close>: the column of a two-dimensional array, as a function of the row. A
  float is no index, so the missing marker raises \<^verbatim>\<open>IndexError\<close> here.
\<close>

definition get_column :: "'a ndarray \<Rightarrow> pyindex \<Rightarrow> error + (nat \<Rightarrow> 'a)" where
  "get_column Z i =
     (case shape Z of
        [nt, nx] \<Rightarrow>
          (case i of
             PyNaN \<Rightarrow> Inl IndexError
           | PyInt j \<Rightarrow>
               (case py_index nx j of
                  Inl e \<Rightarrow> Inl e
                | Inr c \<Rightarrow> Inr (\<lambda>t. elem Z [t, c])))
      | _ \<Rightarrow> Inl IndexError)"

text \<open>
  \<^verbatim>\<open>A[:,cnt] = col\<close> on an array of 64-bit floats: the column \<open>cnt\<close> is
  overwritten, every other entry is kept. The assignment converts each entry of \<open>col\<close>
  from the element type of its own array to a 64-bit float; \<open>to_float64\<close> is that
  conversion.
\<close>

definition set_column :: "('a \<Rightarrow> 'f) \<Rightarrow> 'f ndarray \<Rightarrow> nat \<Rightarrow> (nat \<Rightarrow> 'a) \<Rightarrow> 'f ndarray" where
  "set_column to_float64 A cnt col =
     A\<lparr>elem := (\<lambda>ix. case ix of
                        [t, c] \<Rightarrow> if c = cnt then to_float64 (col t) else elem A ix
                      | _ \<Rightarrow> elem A ix)\<rparr>"

text \<open>
  The loop \<^verbatim>\<open>for cnt, i in enumerate(idx)\<close>, over the enumerated list. A missing marker
  leaves the output as it is; any other entry copies a column, or raises.
\<close>

fun fill_columns ::
  "('a \<Rightarrow> 'f) \<Rightarrow> 'a ndarray \<Rightarrow> (nat \<times> pyindex) list \<Rightarrow> 'f ndarray \<Rightarrow> error + 'f ndarray" where
  "fill_columns to_float64 Z [] surfaceElevation = Inr surfaceElevation"
| "fill_columns to_float64 Z ((cnt, i) # rest) surfaceElevation =
     (case np_isnan i of
        Inl e \<Rightarrow> Inl e
      | Inr isnan \<Rightarrow>
          if \<not> isnan then
            (case get_column Z i of
               Inl e \<Rightarrow> Inl e
             | Inr col \<Rightarrow>
                 fill_columns to_float64 Z rest (set_column to_float64 surfaceElevation cnt col))
          else fill_columns to_float64 Z rest surfaceElevation)"

text \<open>
  The function itself. \<^verbatim>\<open>nt, nx = np.shape(Z)\<close> raises \<^verbatim>\<open>ValueError\<close> unless \<open>Z\<close>
  has two axes; \<^verbatim>\<open>np.shape(idx)[0]\<close> is the length of the list. The result is the
  array of 64-bit floats that \<^verbatim>\<open>np.empty\<close> allocated, whatever the element type \<open>'a\<close>
  of \<open>Z\<close> is; \<open>to_float64\<close> is NumPy's conversion from that element type.
\<close>

definition getSurfaceElevation ::
  "environment \<Rightarrow> ('a \<Rightarrow> 'f) \<Rightarrow> (nat list \<Rightarrow> 'f) \<Rightarrow> 'a ndarray \<Rightarrow> pyindex list \<Rightarrow>
     error + 'f ndarray" where
  "getSurfaceElevation env to_float64 uninit Z idx =
     (if \<not> numpy_installed env then Inl (ImportError ''NumPy not found'')
      else
        (case shape Z of
           [nt, nx] \<Rightarrow>
             fill_columns to_float64 Z (enumerate 0 idx) (np_empty [nt, length idx] uninit)
         | _ \<Rightarrow> Inl ValueError))"

text \<open>The entries of \<open>idx\<close> that \<^verbatim>\<open>Z[:,i]\<close> accepts on an axis of extent \<open>nx\<close>.\<close>

fun index_ok :: "nat \<Rightarrow> pyindex \<Rightarrow> bool" where
  "index_ok nx PyNaN = True"
| "index_ok nx (PyInt j) = (- int nx \<le> j \<and> j < int nx)"

text \<open>A 64-bit float, as far as the selector tells values apart.\<close>

datatype float64 = NaN | Num int

text \<open>
  The conversions the assignment makes. An entry that is a 64-bit float already is stored
  as it is. A 64-bit integer is rounded to the nearest float, which has 53 significant
  bits; of two nearest floats the one with the even significand is taken.
\<close>

definition float64_to_float64 :: "float64 \<Rightarrow> float64" where
  "float64_to_float64 x = x"

function bit_length :: "nat \<Rightarrow> nat" where
  "bit_length m = (if m = 0 then 0 else Suc (bit_length (m div 2)))"
  by pat_completeness auto
termination
  by (relation "measure (\<lambda>m. m)") auto

definition int64_to_float64 :: "int \<Rightarrow> float64" where
  "int64_to_float64 n =
     (let m = nat \<bar>n\<bar>;
          sh = bit_length m - 53;
          q = m div 2 ^ sh;
          r = m mod 2 ^ sh;
          q' = (if 2 ^ sh < 2 * r \<or> (2 * r = 2 ^ sh \<and> odd q) then q + 1 else q)
      in Num (sgn n * int (q' * 2 ^ sh)))"

text \<open>
  Example data: an interpreter with both libraries and one with neither; the elevation
  array of the specification's scenario, 50 time steps by 1000 nodes, each entry telling
  its own position; a memory that holds the number 7 wherever \<^verbatim>\<open>np.empty\<close> allocates;
  and an array of 64-bit integers, one row by one column, that holds 9007199254740993,
  one more than two to the power 53.
\<close>

definition full_python :: environment where
  "full_python = \<lparr>netCDF4_installed = True, numpy_installed = True\<rparr>"

definition bare_python :: environment where
  "bare_python = \<lparr>netCDF4_installed = False, numpy_installed = False\<rparr>"

definition position_value :: "nat list \<Rightarrow> float64" where
  "position_value ix = (case ix of [t, c] \<Rightarrow> Num (int (1000 * t + c)) | _ \<Rightarrow> NaN)"

definition scenario_Z :: "float64 ndarray" where
  "scenario_Z = \<lparr>shape = [50, 1000], elem = position_value\<rparr>"

definition stale_memory :: "nat list \<Rightarrow> float64" where
  "stale_memory ix = Num 7"

definition large_value :: "nat list \<Rightarrow> int" where
  "large_value ix = 9007199254740993"

definition int64_Z :: "int ndarray" where
  "int64_Z = \<lparr>shape = [1, 1], elem = large_value\<rparr>"

text \<open>The entry of a returned array at an index tuple; nothing when the call raised.\<close>

definition entry :: "error + 'a ndarray \<Rightarrow> nat list \<Rightarrow> 'a option" where
  "entry r ix = (case r of Inl e \<Rightarrow> None | Inr A \<Rightarrow> Some (elem A ix))"

definition shape_of :: "error + 'a ndarray \<Rightarrow> nat list option" where
  "shape_of r = (case r of Inl e \<Rightarrow> None | Inr A \<Rightarrow> Some (shape A))"

section \<open>The NetCDF file, as readFVCOM reads it\<close>

text \<open>
  A variable of the file: \<^verbatim>\<open>var.dimensions\<close>, the names of its dimensions in declared
  order, and the stored array. The file: \<^verbatim>\<open>rootgrp.file_format\<close>, and the ordered
  dictionaries \<^verbatim>\<open>rootgrp.dimensions\<close> (name to dimension, of which only the length
  \<^verbatim>\<open>len(var)\<close> is read) and \<^verbatim>\<open>rootgrp.variables\<close>, as association lists in
  iteration order.
\<close>

record 'a Variable =
  var_dimensions :: "string list"
  var_array :: "'a ndarray"

record 'a Dataset =
  file_format :: string
  dimensions :: "(string \<times> nat) list"
  variables :: "(string \<times> 'a Variable) list"



text \<open>
  What the \<^verbatim>\<open>print\<close> statements write: an item (\<^verbatim>\<open>print x,\<close>) or the end of a line
  (a bare \<^verbatim>\<open>print\<close>); \<^verbatim>\<open>print x\<close> writes both.
\<close>

datatype printed = Item string | Newline

section \<open>Python strings\<close>

text \<open>The quote and the backslash cannot stand in a string literal here.\<close>

definition quote :: char where
  "quote = CHR 0x27"

definition dquote :: char where
  "dquote = CHR 0x22"

definition backslash :: char where
  "backslash = CHR 0x5C"

text \<open>\<^verbatim>\<open>str(n)\<close> for a non-negative integer: its decimal digits.\<close>

definition digit_char :: "nat \<Rightarrow> char" where
  "digit_char d = ''0123456789'' ! d"

function py_str :: "nat \<Rightarrow> string" where
  "py_str n = (if n < 10 then [digit_char n] else py_str (n div 10) @ [digit_char (n mod 10)])"
  by pat_completeness auto
termination
  by (relation "measure id") auto

text \<open>
  \<^verbatim>\<open>repr(s)\<close> of a Python 2 byte string: quoted with the single quote, or with the
  double quote when the string holds a single quote and no double quote; the quote in
  use and the backslash are escaped, tab, newline and return are written as letters, and
  every other byte outside printable ASCII as \<^verbatim>\<open>\xhh\<close>.
\<close>

definition hex_digit :: "nat \<Rightarrow> char" where
  "hex_digit d = ''0123456789abcdef'' ! d"

definition repr_char :: "char \<Rightarrow> char \<Rightarrow> string" where
  "repr_char q c =
     (if c = q \<or> c = backslash then [backslash, c]
      else if c = CHR 0x09 then [backslash, CHR ''t'']
      else if c = CHR 0x0A then [backslash, CHR ''n'']
      else if c = CHR 0x0D then [backslash, CHR ''r'']
      else if (of_char c :: nat) < 32 \<or> 127 \<le> (of_char c :: nat) then
        [backslash, CHR ''x'', hex_digit (of_char c div 16), hex_digit (of_char c mod 16)]
      else [c])"

definition py_repr :: "string \<Rightarrow> string" where
  "py_repr s =
     (let q = (if quote \<in> set s \<and> dquote \<notin> set s then dquote else quote)
      in q # concat (map (repr_char q) s) @ [q])"

text \<open>\<^verbatim>\<open>sep.join(xs)\<close>, and \<^verbatim>\<open>str(xs)\<close> for a list of strings.\<close>

fun join :: "string \<Rightarrow> string list \<Rightarrow> string" where
  "join sep [] = []"
| "join sep [x] = x"
| "join sep (x # y # ys) = x @ sep @ join sep (y # ys)"

definition py_str_list :: "string list \<Rightarrow> string" where
  "py_str_list xs = ''['' @ join '', '' (map py_repr xs) @ '']''"

text \<open>\<^verbatim>\<open>s.replace('\'', '')\<close>: every single quote is dropped.\<close>

definition strip_quotes :: "string \<Rightarrow> string" where
  "strip_quotes s = filter (\<lambda>c. c \<noteq> quote) s"

section \<open>readFVCOM\<close>

text \<open>
  The first loop: \<^verbatim>\<open>dims[key] = '0:' + str(len(var))\<close> for every dimension of the file.
\<close>

definition file_dims :: "(string \<times> nat) list \<Rightarrow> (string \<rightharpoonup> string)" where
  "file_dims ds = fold (\<lambda>(key, n) dims. dims(key \<mapsto> ''0:'' @ py_str n)) ds Map.empty"

text \<open>
  The clip dictionary is \<open>None\<close> for the default \<^verbatim>\<open>clipDims=False\<close>; its values are
  strings, as the documentation of the parameter has them. Otherwise every key
  common to \<open>dims\<close> and \<open>clipDims\<close> takes the caller's string; the loop over the set
  \<^verbatim>\<open>commonKeys\<close> writes each such key once, so its order has no effect.
\<close>

definition clip_dims :: "(string \<rightharpoonup> string) \<Rightarrow> (string \<rightharpoonup> string) option \<Rightarrow> (string \<rightharpoonup> string)" where
  "clip_dims dims clipDims =
     (case clipDims of
        None \<Rightarrow> dims
      | Some clip \<Rightarrow> (\<lambda>k. if dims k \<noteq> None \<and> clip k \<noteq> None then clip k else dims k))"

text \<open>
  \<^verbatim>\<open>[toExtract.append(dims[d]) for d in vDims]\<close>: the entries in the order of \<open>vDims\<close>;
  a name that \<open>dims\<close> does not hold raises \<^verbatim>\<open>KeyError\<close>.
\<close>

fun lookup_each :: "(string \<rightharpoonup> string) \<Rightarrow> string list \<Rightarrow> error + string list" where
  "lookup_each dims [] = Inr []"
| "lookup_each dims (d # vDims) =
     (case dims d of
        None \<Rightarrow> Inl (KeyError d)
      | Some s \<Rightarrow>
          (case lookup_each dims vDims of
             Inl e \<Rightarrow> Inl e
           | Inr toExtract \<Rightarrow> Inr (s # toExtract)))"

text \<open>
  The text handed to \<^verbatim>\<open>eval\<close>:
  \<^verbatim>\<open>'rootgrp.variables[\'{}\']{}'.format(key, str(toExtract).replace('\'', ''))\<close>.
\<close>

definition getData :: "string \<Rightarrow> string list \<Rightarrow> string" where
  "getData key toExtract =
     ''rootgrp.variables['' @ [quote] @ key @ [quote] @ '']'' @
     strip_quotes (py_str_list toExtract)"

text \<open>
  \<^verbatim>\<open>eval(getData)\<close> runs inside \<^verbatim>\<open>readFVCOM\<close>, so the text is evaluated with the local
  names of the function in scope: it can read them, and it can change the objects they
  name. The scope holds the arguments \<^verbatim>\<open>varList\<close>, \<^verbatim>\<open>clipDims\<close> and \<^verbatim>\<open>noisy\<close>, the
  open file \<^verbatim>\<open>rootgrp\<close>, the dictionary \<^verbatim>\<open>dims\<close> as lines 52 to 65 leave it, and the
  dictionary \<^verbatim>\<open>FVCOM\<close> as the loop has filled it so far. \<^verbatim>\<open>eval\<close> is the parameter
  \<open>ev\<close>: from the text and the scope it gives the value, and the dictionary \<^verbatim>\<open>FVCOM\<close>
  as the evaluation leaves it, or the exception raised.
\<close>

record ('a, 'r) scope =
  sc_varList :: "string list"
  sc_clipDims :: "(string \<rightharpoonup> string) option"
  sc_noisy :: bool
  sc_rootgrp :: "'a Dataset"
  sc_dims :: "string \<rightharpoonup> string"
  sc_FVCOM :: "string \<rightharpoonup> 'r"

text \<open>The scope when the loop over the variables starts: \<^verbatim>\<open>FVCOM = {}\<close>.\<close>

definition readFVCOM_scope ::
  "'a Dataset \<Rightarrow> string list \<Rightarrow> (string \<rightharpoonup> string) option \<Rightarrow> bool \<Rightarrow> ('a, 'r) scope" where
  "readFVCOM_scope rootgrp varList clipDims noisy =
     \<lparr>sc_varList = varList, sc_clipDims = clipDims, sc_noisy = noisy, sc_rootgrp = rootgrp,
      sc_dims = clip_dims (file_dims (dimensions rootgrp)) clipDims, sc_FVCOM = Map.empty\<rparr>"

text \<open>
  The body of the \<^verbatim>\<open>if key in varList\<close> branch up to the assignment: the slice list, the
  value that \<^verbatim>\<open>eval\<close> gives in the scope, and \<^verbatim>\<open>FVCOM\<close> as \<^verbatim>\<open>eval\<close> leaves it.
\<close>

definition extract_variable ::
  "(string \<Rightarrow> ('a, 'r) scope \<Rightarrow> error + 'r \<times> (string \<rightharpoonup> 'r)) \<Rightarrow> ('a, 'r) scope \<Rightarrow> string \<Rightarrow>
   error + (string list \<times> 'r \<times> (string \<rightharpoonup> 'r))" where
  "extract_variable ev sc key =
     (case map_of (variables (sc_rootgrp sc)) key of
        None \<Rightarrow> Inl (KeyError key)
      | Some v \<Rightarrow>
          (case lookup_each (sc_dims sc) (var_dimensions v) of
             Inl e \<Rightarrow> Inl e
           | Inr toExtract \<Rightarrow>
               (case ev (getData key toExtract) sc of
                  Inl e \<Rightarrow> Inl e
                | Inr (a, FVCOM') \<Rightarrow> Inr (toExtract, a, FVCOM'))))"

text \<open>The line printed after an extraction when \<open>noisy\<close> is set.\<close>

definition extracted_line :: "string list \<Rightarrow> printed list" where
  "extracted_line toExtract =
     (if length (py_str_list toExtract) < 60
      then [Item (''(extracted '' @ strip_quotes (py_str_list toExtract) @ '')''), Newline]
      else [Item ''(extracted given nodes)'', Newline])"

text \<open>
  The loop \<^verbatim>\<open>for key, var in rootgrp.variables.iteritems()\<close>. The state is what has been
  printed and the dictionary \<open>FVCOM\<close>; an exception ends the loop and keeps what was
  printed before it. In \<^verbatim>\<open>FVCOM[key] = eval(getData)\<close> the right-hand side is evaluated
  first, and the value is then stored in the dictionary as the evaluation left it.
\<close>

fun extract_loop ::
  "(string \<Rightarrow> ('a, 'r) scope \<Rightarrow> error + 'r \<times> (string \<rightharpoonup> 'r)) \<Rightarrow> ('a, 'r) scope \<Rightarrow>
   (string \<times> 'a Variable) list \<Rightarrow> printed list \<times> (string \<rightharpoonup> 'r) \<Rightarrow>
   printed list \<times> (error + (string \<rightharpoonup> 'r))" where
  "extract_loop ev sc [] (out, FVCOM) = (out, Inr FVCOM)"
| "extract_loop ev sc ((key, var) # rest) (out, FVCOM) =
     (let out1 = out @ (if sc_noisy sc then [Item (''Found '' @ key)] else [])
      in if key \<in> set (sc_varList sc) then
           (case extract_variable ev (sc\<lparr>sc_FVCOM := FVCOM\<rparr>) key of
              Inl e \<Rightarrow> (out1, Inl e)
            | Inr (toExtract, a, FVCOM') \<Rightarrow>
                extract_loop ev sc rest
                  (out1 @ (if sc_noisy sc then extracted_line toExtract else []),
                   FVCOM'(key \<mapsto> a)))
         else
           extract_loop ev sc rest (out1 @ (if sc_noisy sc then [Newline] else []), FVCOM))"

text \<open>
  The function. \<open>fs\<close> is the file system as \<^verbatim>\<open>Dataset(file, 'r')\<close> sees it: the NetCDF
  file at each path. The result is what was printed, and the returned dictionary or the
  exception raised.
\<close>

definition readFVCOM ::
  "(string \<Rightarrow> ('a, 'r) scope \<Rightarrow> error + 'r \<times> (string \<rightharpoonup> 'r)) \<Rightarrow> environment \<Rightarrow>
   (string \<rightharpoonup> 'a Dataset) \<Rightarrow> string \<Rightarrow> string list \<Rightarrow> (string \<rightharpoonup> string) option \<Rightarrow> bool \<Rightarrow>
   printed list \<times> (error + (string \<rightharpoonup> 'r))" where
  "readFVCOM ev env fs file varList clipDims noisy =
     (if \<not> netCDF4_installed env then
        ([], Inl (ImportError ''Failed to load the NetCDF4 library''))
      else
        (case fs file of
           None \<Rightarrow> ([], Inl (IOError file))
         | Some rootgrp \<Rightarrow>
             (let out = (if noisy then [Item (''File format: '' @ file_format rootgrp), Newline]
                         else [])
              in extract_loop ev (readFVCOM_scope rootgrp varList clipDims noisy)
                   (variables rootgrp) (out, Map.empty))))"

section \<open>The slice expressions that eval is followed through\<close>

text \<open>
  \<^verbatim>\<open>eval\<close> interprets the text as a Python expression. This development follows it on
  the texts \<^verbatim>\<open>rootgrp.variables['name'][item, ..., item]\<close> in which the name is plain
  (printable ASCII, no quote, no backslash) and every item is a range \<^verbatim>\<open>lo:hi\<close> or an
  index list \<^verbatim>\<open>[i, j, ...]\<close> of decimal integers: the two forms of the function's
  documentation. It also follows three upper bounds of a range that use the scope:
  \<^verbatim>\<open>n+noisy\<close> and \<^verbatim>\<open>len(clipDims)\<close>, which read it, and \<^verbatim>\<open>(FVCOM.clear() or n)\<close>, which
  changes it. On every other text the result is \<open>NotModelled\<close>, and no statement is made
  about the call.
\<close>

datatype selector = Slice int int | Indices "int list"

definition is_digit :: "char \<Rightarrow> bool" where
  "is_digit c \<longleftrightarrow> c \<in> set ''0123456789''"

definition digit_val :: "char \<Rightarrow> nat" where
  "digit_val c = of_char c - 48"

definition dec_value :: "string \<Rightarrow> nat" where
  "dec_value s = foldl (\<lambda>acc c. 10 * acc + digit_val c) 0 s"

text \<open>
  A decimal literal. A leading zero before more digits makes a Python 2 literal octal, so
  such a text is left out.
\<close>

definition parse_nat :: "string \<Rightarrow> nat option" where
  "parse_nat s =
     (if s \<noteq> [] \<and> list_all is_digit s \<and> (length s = 1 \<or> hd s \<noteq> CHR ''0'')
      then Some (dec_value s) else None)"

definition parse_int :: "string \<Rightarrow> int option" where
  "parse_int s =
     (case s of
        [] \<Rightarrow> None
      | c # cs \<Rightarrow>
          if c = CHR ''-'' then map_option (\<lambda>n. - int n) (parse_nat cs)
          else map_option int (parse_nat s))"

text \<open>
  The text between two brackets, cut at the commas outside inner brackets. The arguments
  are the bracket depth, the piece being read and the text left.
\<close>

fun split_commas :: "nat \<Rightarrow> string \<Rightarrow> string \<Rightarrow> string list" where
  "split_commas d cur [] = [cur]"
| "split_commas d cur (c # cs) =
     (if c = CHR ''['' then split_commas (Suc d) (cur @ [c]) cs
      else if c = CHR '']'' then split_commas (d - 1) (cur @ [c]) cs
      else if c = CHR '','' \<and> d = 0 then cur # split_commas 0 [] cs
      else split_commas d (cur @ [c]) cs)"

definition lstrip :: "string \<Rightarrow> string" where
  "lstrip s = dropWhile (\<lambda>c. c = CHR '' '') s"

definition no_brackets :: "string \<Rightarrow> bool" where
  "no_brackets s \<longleftrightarrow> CHR ''['' \<notin> set s \<and> CHR '']'' \<notin> set s"

definition parse_slice :: "string \<Rightarrow> selector option" where
  "parse_slice s =
     (case dropWhile (\<lambda>c. c \<noteq> CHR '':'') s of
        [] \<Rightarrow> None
      | c # hi_text \<Rightarrow>
          (case parse_int (takeWhile (\<lambda>c. c \<noteq> CHR '':'') s) of
             None \<Rightarrow> None
           | Some lo \<Rightarrow>
               (case parse_int hi_text of
                  None \<Rightarrow> None
                | Some hi \<Rightarrow> Some (Slice lo hi))))"

definition parse_int_list :: "string \<Rightarrow> int list option" where
  "parse_int_list body = those (map (\<lambda>t. parse_int (lstrip t)) (split_commas 0 [] body))"

definition parse_item :: "string \<Rightarrow> selector option" where
  "parse_item s =
     (case s of
        [] \<Rightarrow> None
      | c # cs \<Rightarrow>
          if c = CHR ''['' then
            (if cs \<noteq> [] \<and> last cs = CHR '']'' \<and> no_brackets (butlast cs)
             then map_option Indices (parse_int_list (butlast cs))
             else None)
          else parse_slice s)"

text \<open>What one clip string means as an item of the subscript.\<close>

definition parse_clip :: "string \<Rightarrow> selector option" where
  "parse_clip s = parse_item (lstrip s)"


definition slice_char :: "char \<Rightarrow> bool" where
  "slice_char c \<longleftrightarrow> c \<in> set ''0123456789-:, []''"

definition parse_subscript :: "string \<Rightarrow> selector list option" where
  "parse_subscript sub =
     (case sub of
        [] \<Rightarrow> None
      | c # cs \<Rightarrow>
          if c = CHR ''['' \<and> cs \<noteq> [] \<and> last cs = CHR '']'' \<and> list_all slice_char sub
          then those (map parse_clip (split_commas 0 [] (butlast cs)))
          else None)"

text \<open>
  A range on an axis of extent \<open>n\<close>, as \<^verbatim>\<open>slice(lo, hi).indices(n)\<close> gives it: a negative
  bound counts from the end, and both bounds are clamped to the axis.
\<close>

definition clamp_bound :: "nat \<Rightarrow> int \<Rightarrow> nat" where
  "clamp_bound n i = nat (min (int n) (max 0 (if i < 0 then i + int n else i)))"

definition py_slice :: "nat \<Rightarrow> int \<Rightarrow> int \<Rightarrow> nat list" where
  "py_slice n lo hi = [clamp_bound n lo ..< clamp_bound n hi]"

text \<open>The first exception of a list of results, or all the values.\<close>

fun all_ok :: "(error + 'b) list \<Rightarrow> error + 'b list" where
  "all_ok [] = Inr []"
| "all_ok (r # rs) =
     (case r of
        Inl e \<Rightarrow> Inl e
      | Inr x \<Rightarrow> (case all_ok rs of Inl e \<Rightarrow> Inl e | Inr xs \<Rightarrow> Inr (x # xs)))"

text \<open>The positions that a selector takes from an axis of extent \<open>n\<close>, in order.\<close>

fun axis_indices :: "nat \<Rightarrow> selector \<Rightarrow> error + nat list" where
  "axis_indices n (Slice lo hi) = Inr (py_slice n lo hi)"
| "axis_indices n (Indices js) = all_ok (map (py_index n) js)"

text \<open>
  Indexing a NetCDF variable, \<^verbatim>\<open>var[sel, ..., sel]\<close>. Index lists work on each axis on
  its own, as the netCDF4 library documents it (and unlike NumPy): entry
  \<open>(i\<^sub>1, ..., i\<^sub>k)\<close> of the result is the entry of the variable at the \<open>i\<^sub>1\<close>-th position
  selected on the first axis, ..., the \<open>i\<^sub>k\<close>-th selected on the last. Missing trailing
  selectors take their whole axis; too many raise \<^verbatim>\<open>IndexError\<close>.
\<close>

definition take_indices :: "'a ndarray \<Rightarrow> nat list list \<Rightarrow> 'a ndarray" where
  "take_indices A idxs =
     \<lparr>shape = map length idxs, elem = (\<lambda>ix. elem A (map2 (\<lambda>js i. js ! i) idxs ix))\<rparr>"

definition getitem :: "'a ndarray \<Rightarrow> selector list \<Rightarrow> error + 'a ndarray" where
  "getitem A sels =
     (if length (shape A) < length sels then Inl IndexError
      else
        (case all_ok (map2 axis_indices (shape A)
                (sels @ map (\<lambda>n. Slice 0 (int n)) (drop (length sels) (shape A)))) of
           Inl e \<Rightarrow> Inl e
         | Inr idxs \<Rightarrow> Inr (take_indices A idxs)))"

fun strip_prefix :: "string \<Rightarrow> string \<Rightarrow> string option" where
  "strip_prefix [] s = Some s"
| "strip_prefix (p # ps) [] = None"
| "strip_prefix (p # ps) (c # cs) = (if p = c then strip_prefix ps cs else None)"

definition plain_name :: "string \<Rightarrow> bool" where
  "plain_name name \<longleftrightarrow>
     list_all (\<lambda>c. (32::nat) \<le> of_char c \<and> (of_char c :: nat) < 127 \<and>
                   c \<noteq> quote \<and> c \<noteq> backslash) name"

text \<open>
  The upper bounds that use the scope, and the items of a subscript: a selector of a
  documented form, or a range from a decimal integer to such an upper bound.
\<close>

datatype upper = PlusNoisy int | LenClipDims | ClearOr int

datatype item = Documented selector | ScopedRange int upper

definition strip_suffix :: "string \<Rightarrow> string \<Rightarrow> string option" where
  "strip_suffix suffix s = map_option rev (strip_prefix (rev suffix) (rev s))"

definition parse_upper :: "string \<Rightarrow> upper option" where
  "parse_upper s =
     (if s = ''len(clipDims)'' then Some LenClipDims
      else
        (case strip_suffix ''+noisy'' s of
           Some n_text \<Rightarrow> map_option PlusNoisy (parse_int n_text)
         | None \<Rightarrow>
             (case strip_prefix ''(FVCOM.clear() or '' s of
                None \<Rightarrow> None
              | Some rest \<Rightarrow>
                  (case strip_suffix '')'' rest of
                     None \<Rightarrow> None
                   | Some n_text \<Rightarrow> map_option ClearOr (parse_int n_text)))))"

definition parse_scoped_range :: "string \<Rightarrow> item option" where
  "parse_scoped_range s =
     (case dropWhile (\<lambda>c. c \<noteq> CHR '':'') s of
        [] \<Rightarrow> None
      | c # hi_text \<Rightarrow>
          (case parse_int (takeWhile (\<lambda>c. c \<noteq> CHR '':'') s) of
             None \<Rightarrow> None
           | Some lo \<Rightarrow> map_option (ScopedRange lo) (parse_upper hi_text)))"

definition parse_scoped_item :: "string \<Rightarrow> item option" where
  "parse_scoped_item s =
     (case parse_clip s of
        Some sel \<Rightarrow> Some (Documented sel)
      | None \<Rightarrow> parse_scoped_range (lstrip s))"

text \<open>
  The items of the whole subscript, or \<open>None\<close> when an item is of no form followed here
  or the text holds a quote.
\<close>

definition parse_scoped_subscript :: "string \<Rightarrow> item list option" where
  "parse_scoped_subscript sub =
     (if quote \<in> set sub then None
      else
        (case parse_subscript sub of
           Some sels \<Rightarrow> Some (map Documented sels)
         | None \<Rightarrow>
             (case sub of
                [] \<Rightarrow> None
              | c # cs \<Rightarrow>
                  if c = CHR ''['' \<and> cs \<noteq> [] \<and> last cs = CHR '']''
                  then those (map parse_scoped_item (split_commas 0 [] (butlast cs)))
                  else None)))"

text \<open>
  The value of an upper bound in the scope, and \<^verbatim>\<open>FVCOM\<close> after it. In \<^verbatim>\<open>n+noisy\<close> the
  flag counts as 1 when set and as 0 otherwise, as Python's \<^verbatim>\<open>True\<close> and \<^verbatim>\<open>False\<close> do.
  \<^verbatim>\<open>len(clipDims)\<close> is the number of keys of the clip dictionary, and raises
  \<^verbatim>\<open>TypeError\<close> on the default \<^verbatim>\<open>False\<close>. \<^verbatim>\<open>FVCOM.clear()\<close> empties the dictionary and
  returns \<^verbatim>\<open>None\<close>, so \<^verbatim>\<open>(FVCOM.clear() or n)\<close> has the value \<open>n\<close>.
\<close>

definition eval_upper :: "('a, 'r) scope \<Rightarrow> upper \<Rightarrow> error + int \<times> (string \<rightharpoonup> 'r)" where
  "eval_upper sc u =
     (case u of
        PlusNoisy n \<Rightarrow> Inr (n + (if sc_noisy sc then 1 else 0), sc_FVCOM sc)
      | LenClipDims \<Rightarrow>
          (case sc_clipDims sc of
             None \<Rightarrow> Inl TypeError
           | Some clip \<Rightarrow> Inr (int (card (dom clip)), sc_FVCOM sc))
      | ClearOr n \<Rightarrow> Inr (n, Map.empty))"

text \<open>
  The items are evaluated from left to right, each in the scope as the items before it
  left it. The result is the selectors and \<^verbatim>\<open>FVCOM\<close> after the last item, or the first
  exception.
\<close>

fun eval_items ::
  "('a, 'r) scope \<Rightarrow> item list \<Rightarrow> error + selector list \<times> (string \<rightharpoonup> 'r)" where
  "eval_items sc [] = Inr ([], sc_FVCOM sc)"
| "eval_items sc (Documented sel # rest) =
     (case eval_items sc rest of
        Inl e \<Rightarrow> Inl e
      | Inr (sels, FVCOM') \<Rightarrow> Inr (sel # sels, FVCOM'))"
| "eval_items sc (ScopedRange lo u # rest) =
     (case eval_upper sc u of
        Inl e \<Rightarrow> Inl e
      | Inr (hi, FVCOM1) \<Rightarrow>
          (case eval_items (sc\<lparr>sc_FVCOM := FVCOM1\<rparr>) rest of
             Inl e \<Rightarrow> Inl e
           | Inr (sels, FVCOM') \<Rightarrow> Inr (Slice lo hi # sels, FVCOM')))"

text \<open>
  \<^verbatim>\<open>eval\<close> on the texts described above, in the scope of \<^verbatim>\<open>readFVCOM\<close>. An empty
  subscript \<^verbatim>\<open>[]\<close>, which is what a variable without dimensions gets, is a syntax error
  of Python. Python looks the variable up, then evaluates the items of the subscript,
  then indexes the variable.
\<close>

definition py_eval ::
  "string \<Rightarrow> ('a, 'a ndarray) scope \<Rightarrow> error + 'a ndarray \<times> (string \<rightharpoonup> 'a ndarray)" where
  "py_eval text sc =
     (case strip_prefix (''rootgrp.variables['' @ [quote]) text of
        None \<Rightarrow> Inl NotModelled
      | Some after_open \<Rightarrow>
          (let name = takeWhile (\<lambda>c. c \<noteq> quote) after_open
           in if \<not> plain_name name then Inl NotModelled
              else
                (case strip_prefix ([quote] @ '']'')
                        (dropWhile (\<lambda>c. c \<noteq> quote) after_open) of
                   None \<Rightarrow> Inl NotModelled
                 | Some sub \<Rightarrow>
                     if sub = ''[]'' then Inl SyntaxError
                     else
                       (case parse_scoped_subscript sub of
                          None \<Rightarrow> Inl NotModelled
                        | Some items \<Rightarrow>
                            (case map_of (variables (sc_rootgrp sc)) name of
                               None \<Rightarrow> Inl (KeyError name)
                             | Some v \<Rightarrow>
                                 (case eval_items sc items of
                                    Inl e \<Rightarrow> Inl e
                                  | Inr (sels, FVCOM') \<Rightarrow>
                                      (case getitem (var_array v) sels of
                                         Inl e \<Rightarrow> Inl e
                                       | Inr arr \<Rightarrow> Inr (arr, FVCOM'))))))))"




section \<open>Example file\<close>

text \<open>
  The file of the specification's scenario: dimensions time = 500 and node = 1000, the
  variable zeta over (time, node), and beside it the depth h over (node). Every array
  entry tells its own position.
\<close>

definition flat_value :: "nat list \<Rightarrow> float64" where
  "flat_value ix = (case ix of [i] \<Rightarrow> Num (int i) | _ \<Rightarrow> NaN)"

definition scenario_file :: "float64 Dataset" where
  "scenario_file =
     \<lparr>file_format = ''NETCDF4'',
      dimensions = [(''time'', 500), (''node'', 1000)],
      variables =
        [(''h'', \<lparr>var_dimensions = [''node''],
                 var_array = \<lparr>shape = [1000], elem = flat_value\<rparr>\<rparr>),
         (''zeta'', \<lparr>var_dimensions = [''time'', ''node''],
                    var_array = \<lparr>shape = [500, 1000], elem = position_value\<rparr>\<rparr>)]\<rparr>"

definition scenario_fs :: "string \<rightharpoonup> float64 Dataset" where
  "scenario_fs = [''scenario.nc'' \<mapsto> scenario_file]"





section \<open>Properties of getSurfaceElevation\<close>

declare bit_length.simps [simp del]


lemma set_column_shape: "shape (set_column to_float64 A cnt col) = shape A"
  by (simp add: set_column_def)

lemma set_column_other: "c \<noteq> cnt \<Longrightarrow> elem (set_column to_float64 A cnt col) [t, c] = elem A [t, c]"
  by (simp add: set_column_def)

lemma set_column_same: "elem (set_column to_float64 A cnt col) [t, cnt] = to_float64 (col t)"
  by (simp add: set_column_def)

lemma fill_columns_shape:
  "fill_columns to_float64 Z ps A = Inr out \<Longrightarrow> shape out = shape A"
proof (induction ps arbitrary: A)
  case Nil
  then show ?case by simp
next
  case (Cons p ps)
  obtain cnt i where p: "p = (cnt, i)" by (cases p)
  from Cons.prems Cons.IH show ?case
    by (auto simp: p set_column_shape split: sum.splits if_splits)
qed

lemma fill_columns_untouched:
  "fill_columns to_float64 Z ps A = Inr out \<Longrightarrow> c \<notin> fst ` set ps \<Longrightarrow> elem out [t, c] = elem A [t, c]"
proof (induction ps arbitrary: A)
  case Nil
  then show ?case by simp
next
  case (Cons p ps)
  obtain cnt i where p: "p = (cnt, i)" by (cases p)
  from Cons.prems have c: "c \<noteq> cnt" "c \<notin> fst ` set ps" by (auto simp: p)
  from Cons.prems(1) Cons.IH c show ?case
    by (auto simp: p set_column_other split: sum.splits if_splits)
qed

lemma fill_columns_missing:
  "fill_columns to_float64 Z ps A = Inr out \<Longrightarrow> distinct (map fst ps) \<Longrightarrow> (cnt, PyNaN) \<in> set ps \<Longrightarrow>
   elem out [t, cnt] = elem A [t, cnt]"
proof (induction ps arbitrary: A)
  case Nil
  then show ?case by simp
next
  case (Cons p ps)
  obtain k i where p: "p = (k, i)" by (cases p)
  show ?case
  proof (cases "p = (cnt, PyNaN)")
    case True
    with Cons.prems have rest: "fill_columns to_float64 Z ps A = Inr out" "cnt \<notin> fst ` set ps"
      by (auto simp: np_isnan_def)
    then show ?thesis by (rule fill_columns_untouched)
  next
    case False
    with Cons.prems have mem: "(cnt, PyNaN) \<in> set ps" and d: "distinct (map fst ps)"
      and k: "k \<noteq> cnt"
      by (auto simp: p rev_image_eqI)
    from Cons.prems(1) Cons.IH [OF _ d mem] k show ?thesis
      by (auto simp: p set_column_other split: sum.splits if_splits)
  qed
qed

lemma fill_columns_copied:
  "fill_columns to_float64 Z ps A = Inr out \<Longrightarrow> distinct (map fst ps) \<Longrightarrow> (cnt, PyInt j) \<in> set ps \<Longrightarrow>
   shape Z = [nt, nx] \<Longrightarrow>
   \<exists>c. py_index nx j = Inr c \<and> (\<forall>t. elem out [t, cnt] = to_float64 (elem Z [t, c]))"
proof (induction ps arbitrary: A)
  case Nil
  then show ?case by simp
next
  case (Cons p ps)
  obtain k i where p: "p = (k, i)" by (cases p)
  show ?case
  proof (cases "p = (cnt, PyInt j)")
    case True
    with Cons.prems obtain col where
      col: "get_column Z (PyInt j) = Inr col" and
      rest: "fill_columns to_float64 Z ps (set_column to_float64 A cnt col) = Inr out" and
      fresh: "cnt \<notin> fst ` set ps"
      by (auto simp: np_isnan_def split: sum.splits if_splits)
    from col Cons.prems(4) obtain c where c: "py_index nx j = Inr c" "col = (\<lambda>t. elem Z [t, c])"
      by (auto simp: get_column_def split: sum.splits)
    have "elem out [t, cnt] = to_float64 (elem Z [t, c])" for t
      using fill_columns_untouched [OF rest fresh, of t] c(2) by (simp add: set_column_same)
    with c(1) show ?thesis by blast
  next
    case False
    with Cons.prems have mem: "(cnt, PyInt j) \<in> set ps" and d: "distinct (map fst ps)"
      by (auto simp: p)
    from Cons.prems(1) Cons.IH [OF _ d mem Cons.prems(4)] show ?thesis
      by (auto simp: p split: sum.splits if_splits)
  qed
qed

lemma fill_columns_total:
  "shape Z = [nt, nx] \<Longrightarrow> nx \<le> 2 ^ 63 \<Longrightarrow> \<forall>p \<in> set ps. index_ok nx (snd p) \<Longrightarrow>
   \<exists>out. fill_columns to_float64 Z ps A = Inr out"
proof (induction ps arbitrary: A)
  case Nil
  then show ?case by simp
next
  case (Cons p ps)
  obtain k i where p: "p = (k, i)" by (cases p)
  from Cons.prems have rest: "\<exists>out. fill_columns to_float64 Z ps B = Inr out" for B
    using Cons.IH by simp
  show ?case
  proof (cases i)
    case PyNaN
    with rest show ?thesis by (simp add: p np_isnan_def)
  next
    case (PyInt j)
    with Cons.prems have j: "- int nx \<le> j" "j < int nx" by (auto simp: p)
    from Cons.prems(2) have "int nx \<le> 2 ^ 63" 
      by (metis of_nat_le_iff of_nat_numeral of_nat_power)
    with j have nan: "np_isnan (PyInt j) = Inr False" by (auto simp: np_isnan_def)
    from j have "py_index nx j = Inr (nat (if j < 0 then j + int nx else j))"
      by (simp add: py_index_def Let_def)
    then obtain c where "py_index nx j = Inr c" ..
    with Cons.prems(1) obtain col where "get_column Z (PyInt j) = Inr col"
      by (simp add: get_column_def)
    with nan rest show ?thesis by (simp add: p PyInt)
  qed
qed

lemma enumerate_keys_distinct: "distinct (map fst (enumerate n xs))"
  by simp

lemma enumerate_position: "i < length xs \<Longrightarrow> (i, xs ! i) \<in> set (enumerate 0 xs)"
  by (simp add: in_set_enumerate_eq)

lemma getSurfaceElevation_result_shape:
  assumes "getSurfaceElevation env to_float64 uninit Z idx = Inr res" and "shape Z = [nt, nx]"
  shows "shape res = [nt, length idx]"
proof -
  from assms
  have "fill_columns to_float64 Z (enumerate 0 idx) (np_empty [nt, length idx] uninit)
          = Inr res"
    by (simp add: getSurfaceElevation_def split: if_splits)
  then have "shape res = shape (np_empty [nt, length idx] uninit)"
    by (rule fill_columns_shape)
  then show ?thesis by (simp add: np_empty_def)
qed

lemma getSurfaceElevation_returns:
  assumes "shape Z = [nt, nx]" and "numpy_installed env" and "nx \<le> 2 ^ 63"
    and "list_all (index_ok nx) idx"
  shows "\<exists>res. getSurfaceElevation env to_float64 uninit Z idx = Inr res"
proof -
  from assms(4) have "\<forall>p \<in> set (enumerate 0 idx). index_ok nx (snd p)"
    by (auto simp: list_all_iff in_set_enumerate_eq)
  with assms(1,3)
  have "\<exists>res. fill_columns to_float64 Z (enumerate 0 idx) (np_empty [nt, length idx] uninit)
                = Inr res"
    by (rule fill_columns_total)
  with assms(1,2) show ?thesis by (simp add: getSurfaceElevation_def)
qed

text \<open>
  C6. For a two-dimensional \<open>Z\<close> of shape (nt, nx) and an index list of length K, every
  array that \<open>getSurfaceElevation\<close> returns has shape (nt, K); and it does return one
  whenever NumPy is there and every entry of the list is the missing marker or an index
  that the second axis accepts. An empty list has no entries, so K = 0 is covered.
\<close>

theorem getSurfaceElevation_shape:
  assumes "shape Z = [nt, nx]"
  shows "(getSurfaceElevation env to_float64 uninit Z idx = Inr out \<longrightarrow>
            shape out = [nt, length idx]) \<and>
         (numpy_installed env \<and> nx \<le> 2 ^ 63 \<and> list_all (index_ok nx) idx \<longrightarrow>
            (\<exists>res. getSurfaceElevation env to_float64 uninit Z idx = Inr res \<and>
                   shape res = [nt, length idx]))"
  using getSurfaceElevation_result_shape [OF _ assms]
    getSurfaceElevation_returns [OF assms, of env idx to_float64 uninit]
  by blast

theorem getSurfaceElevation_shape_witness:
  "shape_of (getSurfaceElevation full_python float64_to_float64 stale_memory scenario_Z [])
     = Some [50, 0] \<and>
   shape_of (getSurfaceElevation full_python float64_to_float64 stale_memory scenario_Z
               [PyInt 5, PyNaN, PyInt 12]) = Some [50, 3]"
proof -
  have z: "shape scenario_Z = [50, 1000]" by (simp add: scenario_Z_def)
  have env: "numpy_installed full_python" by (simp add: full_python_def)
  have a: "shape_of (getSurfaceElevation full_python float64_to_float64 stale_memory scenario_Z idx)
             = Some [50, length idx]"
    if "list_all (index_ok 1000) idx" for idx
  proof -
    from getSurfaceElevation_shape [OF z, of full_python float64_to_float64 stale_memory idx]
      that env
    obtain res where
      "getSurfaceElevation full_python float64_to_float64 stale_memory scenario_Z idx = Inr res"
      and "shape res = [50, length idx]"
      by auto
    then show ?thesis by (simp add: shape_of_def)
  qed
  show ?thesis
    using a [of "[]"] a [of "[PyInt 5, PyNaN, PyInt 12]"] by simp
qed

text \<open>
  C5, as the code has it. Where position \<open>i\<close> of the list holds an integer \<open>j\<close> and the
  call returns, \<open>j\<close> is an index of the second axis of \<open>Z\<close> (counted from the end when
  negative) and column \<open>i\<close> of the result holds, entry by entry, that column of \<open>Z\<close>
  converted to 64-bit floats. For a \<open>Z\<close> of 64-bit floats the conversion changes nothing
  and the two columns are equal.
\<close>

theorem getSurfaceElevation_copies_column:
  assumes "getSurfaceElevation env to_float64 uninit Z idx = Inr out"
    and "shape Z = [nt, nx]"
    and "i < length idx"
    and "idx ! i = PyInt j"
  shows "\<exists>c. py_index nx j = Inr c \<and> c < nx \<and>
           int c = (if j < 0 then j + int nx else j) \<and>
           (\<forall>t<nt. elem out [t, i] = to_float64 (elem Z [t, c]))"
proof -
  from assms(1,2)
  have run: "fill_columns to_float64 Z (enumerate 0 idx) (np_empty [nt, length idx] uninit)
               = Inr out"
    by (simp add: getSurfaceElevation_def split: if_splits)
  from assms(3,4) have mem: "(i, PyInt j) \<in> set (enumerate 0 idx)"
    by (metis enumerate_position)
  from fill_columns_copied [OF run enumerate_keys_distinct mem assms(2)]
  obtain c where c: "py_index nx j = Inr c"
    and col: "\<forall>t. elem out [t, i] = to_float64 (elem Z [t, c])"
    by blast
  from c have "c < nx" "int c = (if j < 0 then j + int nx else j)"
    by (auto simp: py_index_def Let_def split: if_splits)
  with c col show ?thesis by blast
qed

theorem getSurfaceElevation_copies_column_witness:
  "entry (getSurfaceElevation full_python float64_to_float64 stale_memory scenario_Z
            [PyInt 5, PyNaN, PyInt (- 1)]) [49, 2] = Some (Num 49999) \<and>
   entry (getSurfaceElevation full_python float64_to_float64 stale_memory scenario_Z
            [PyInt 5, PyNaN, PyInt (- 1)]) [3, 0] = Some (elem scenario_Z [3, 5])"
proof -
  let ?idx = "[PyInt 5, PyNaN, PyInt (- 1)]"
  have z: "shape scenario_Z = [50, 1000]" by (simp add: scenario_Z_def)
  have "numpy_installed full_python" "(1000::nat) \<le> 2 ^ 63" "list_all (index_ok 1000) ?idx"
    by (simp_all add: full_python_def)
  from getSurfaceElevation_returns [OF z this, of float64_to_float64 stale_memory]
  obtain out where
    out: "getSurfaceElevation full_python float64_to_float64 stale_memory scenario_Z ?idx = Inr out"
    by blast
  from getSurfaceElevation_copies_column [OF out z, of 2 "- 1"]
  have "elem out [49, 2] = float64_to_float64 (elem scenario_Z [49, 999])"
    by (auto simp: py_index_def)
  moreover from getSurfaceElevation_copies_column [OF out z, of 0 5]
  have "elem out [3, 0] = float64_to_float64 (elem scenario_Z [3, 5])"
    by (auto simp: py_index_def)
  ultimately have "elem out [49, 2] = Num 49999 \<and> elem out [3, 0] = elem scenario_Z [3, 5]"
    by (simp add: scenario_Z_def position_value_def float64_to_float64_def)
  then show ?thesis by (simp add: out entry_def)
qed

text \<open>
  The claim C5 as the specification words it, for every input array, fails: the result is
  an array of 64-bit floats whatever \<open>Z\<close> holds. From the array of 64-bit integers with
  the one entry 9007199254740993 and the index list [0], the one entry of the result is
  the float 9007199254740992.
\<close>

theorem getSurfaceElevation_copies_column_counterexample:
  "entry (getSurfaceElevation full_python int64_to_float64 stale_memory int64_Z [PyInt 0])
     [0, 0] = Some (Num 9007199254740992) \<and>
   elem int64_Z [0, 0] = 9007199254740993"
proof -
  have "bit_length 9007199254740993 = 54"
    by (simp add: bit_length.simps)
  then have "int64_to_float64 9007199254740993 = Num 9007199254740992"
    by (simp add: int64_to_float64_def)
  then show ?thesis
    by (simp add: getSurfaceElevation_def full_python_def int64_Z_def np_empty_def entry_def
        enumerate_eq_zip np_isnan_def get_column_def py_index_def set_column_def large_value_def
        upt_rec)
qed

text \<open>
  C1, as the code has it. Where position \<open>i\<close> of the list holds the missing marker and
  the call returns, column \<open>i\<close> of the result is left as \<^verbatim>\<open>np.empty\<close> allocated it:
  every entry is what the memory held there. Nothing writes a fill value.
\<close>

theorem getSurfaceElevation_missing_column:
  assumes "getSurfaceElevation env to_float64 uninit Z idx = Inr out"
    and "shape Z = [nt, nx]"
    and "i < length idx"
    and "idx ! i = PyNaN"
  shows "\<forall>t<nt. elem out [t, i] = uninit [t, i]"
proof -
  from assms(1,2)
  have run: "fill_columns to_float64 Z (enumerate 0 idx) (np_empty [nt, length idx] uninit)
               = Inr out"
    by (simp add: getSurfaceElevation_def split: if_splits)
  from assms(3,4) have mem: "(i, PyNaN) \<in> set (enumerate 0 idx)"
    by (metis enumerate_position)
  from fill_columns_missing [OF run enumerate_keys_distinct mem]
  show ?thesis by (simp add: np_empty_def)
qed

theorem getSurfaceElevation_missing_column_witness:
  "entry (getSurfaceElevation full_python float64_to_float64 position_value scenario_Z
            [PyInt 5, PyNaN, PyInt 12]) [4, 1] = Some (Num 4001)"
proof -
  let ?idx = "[PyInt 5, PyNaN, PyInt 12]"
  have z: "shape scenario_Z = [50, 1000]" by (simp add: scenario_Z_def)
  have "numpy_installed full_python" "(1000::nat) \<le> 2 ^ 63" "list_all (index_ok 1000) ?idx"
    by (simp_all add: full_python_def)
  from getSurfaceElevation_returns [OF z this, of float64_to_float64 position_value]
  obtain out where
    out: "getSurfaceElevation full_python float64_to_float64 position_value scenario_Z ?idx
            = Inr out"
    by blast
  from getSurfaceElevation_missing_column [OF out z, of 1]
  have "elem out [4, 1] = position_value [4, 1]" by simp
  then show ?thesis by (simp add: out entry_def position_value_def)
qed

text \<open>
  The claim C1 as the specification words it fails: in the scenario, with index list
  [5, missing, 12] and a memory that holds 7, column 1 of the result holds 7 and not
  not-a-number.
\<close>

theorem getSurfaceElevation_missing_column_counterexample:
  "entry (getSurfaceElevation full_python float64_to_float64 stale_memory scenario_Z
            [PyInt 5, PyNaN, PyInt 12]) [0, 1] = Some (Num 7) \<and>
   entry (getSurfaceElevation full_python float64_to_float64 stale_memory scenario_Z
            [PyInt 5, PyNaN, PyInt 12]) [0, 1] \<noteq> Some NaN"
  by (simp add: getSurfaceElevation_def full_python_def scenario_Z_def np_empty_def entry_def
      enumerate_eq_zip np_isnan_def get_column_def py_index_def set_column_def stale_memory_def
      upt_rec)

section \<open>Properties of the loop of readFVCOM\<close>






declare extract_loop.simps(2) [simp del]















section \<open>Decimal texts: str and the parser agree\<close>

declare py_str.simps [simp del]


















subsection \<open>What the accepted clip strings look like\<close>













section \<open>The text handed to eval, for accepted clip strings\<close>




















section \<open>What eval returns for the text of a key\<close>

lemma strip_prefix_append: "strip_prefix p (p @ s) = Some s"
  by (induction p) simp_all



lemma parse_scoped_subscript_quote:
  "quote \<in> set sub \<Longrightarrow> parse_scoped_subscript sub = None"
  by (simp add: parse_scoped_subscript_def)




lemma plain_name_quote: "plain_name key \<Longrightarrow> quote \<notin> set key"
  by (auto simp: plain_name_def list_all_iff)

lemma py_eval_plain:
  assumes "plain_name key"
  shows "py_eval (''rootgrp.variables['' @ [quote] @ key @ [quote] @ '']'' @ sub) sc =
     (if sub = ''[]'' then Inl SyntaxError
      else
        (case parse_scoped_subscript sub of
           None \<Rightarrow> Inl NotModelled
         | Some items \<Rightarrow>
             (case map_of (variables (sc_rootgrp sc)) key of
                None \<Rightarrow> Inl (KeyError key)
              | Some v \<Rightarrow>
                  (case eval_items sc items of
                     Inl e \<Rightarrow> Inl e
                   | Inr (sels, FVCOM') \<Rightarrow>
                       (case getitem (var_array v) sels of
                          Inl e \<Rightarrow> Inl e
                        | Inr arr \<Rightarrow> Inr (arr, FVCOM'))))))"
proof -
  let ?pre = "''rootgrp.variables['' @ [quote]"
  let ?rest = "key @ quote # CHR '']'' # sub"
  from assms have nq: "quote \<notin> set key" by (rule plain_name_quote)
  have txt_eq: "''rootgrp.variables['' @ [quote] @ key @ [quote] @ '']'' @ sub = ?pre @ ?rest"
    by simp
  from nq have nq': "x \<noteq> quote" if "x \<in> set key" for x using that by blast
  have tw: "takeWhile (\<lambda>c. c \<noteq> quote) ?rest = key"
    using nq' by (subst takeWhile_append2) simp_all
  have dw: "dropWhile (\<lambda>c. c \<noteq> quote) ?rest = quote # CHR '']'' # sub"
    using nq' by (subst dropWhile_append2) simp_all
  show ?thesis
    unfolding py_eval_def txt_eq strip_prefix_append
    by (simp only: option.case Let_def tw dw assms) (simp add: quote_def)
qed

lemma py_eval_not_plain:
  assumes "\<not> plain_name key" and "quote \<notin> set sub"
  shows "py_eval (''rootgrp.variables['' @ [quote] @ key @ [quote] @ '']'' @ sub) sc
           = Inl NotModelled"
proof (cases "quote \<in> set key")
  case False
  let ?pre = "''rootgrp.variables['' @ [quote]"
  let ?rest = "key @ quote # CHR '']'' # sub"
  have txt_eq: "''rootgrp.variables['' @ [quote] @ key @ [quote] @ '']'' @ sub = ?pre @ ?rest"
    by simp
  from False have nq': "x \<noteq> quote" if "x \<in> set key" for x using that by blast
  have tw: "takeWhile (\<lambda>c. c \<noteq> quote) ?rest = key"
    using nq' by (subst takeWhile_append2) simp_all
  show ?thesis
    unfolding py_eval_def txt_eq strip_prefix_append
    by (simp only: option.case Let_def tw assms(1)) simp
next
  case True
  then obtain k1 k2 where key: "key = k1 @ quote # k2" and k1: "quote \<notin> set k1"
    by (auto dest: split_list_first)
  let ?pre = "''rootgrp.variables['' @ [quote]"
  let ?tail = "k2 @ quote # CHR '']'' # sub"
  let ?rest = "k1 @ quote # ?tail"
  have txt_eq: "''rootgrp.variables['' @ [quote] @ key @ [quote] @ '']'' @ sub = ?pre @ ?rest"
    by (simp add: key)
  from k1 have nq': "x \<noteq> quote" if "x \<in> set k1" for x using that by blast
  have tw: "takeWhile (\<lambda>c. c \<noteq> quote) ?rest = k1"
    using nq' by (subst takeWhile_append2) simp_all
  have dw: "dropWhile (\<lambda>c. c \<noteq> quote) ?rest = quote # ?tail"
    using nq' by (subst dropWhile_append2) simp_all
  have sp: "strip_prefix ([quote] @ '']'') (quote # ?tail) = None \<or>
      (\<exists>sub'. strip_prefix ([quote] @ '']'') (quote # ?tail) = Some sub' \<and> quote \<in> set sub')"
  proof (cases k2)
    case Nil
    then show ?thesis by (simp add: quote_def)
  next
    case (Cons c k3)
    then show ?thesis by simp
  qed
  have res: "py_eval (?pre @ ?rest) sc =
      (if \<not> plain_name k1 then Inl NotModelled
       else
         (case strip_prefix ([quote] @ '']'') (quote # ?tail) of
            None \<Rightarrow> Inl NotModelled
          | Some sub \<Rightarrow>
              if sub = ''[]'' then Inl SyntaxError
              else
                (case parse_scoped_subscript sub of
                   None \<Rightarrow> Inl NotModelled
                 | Some items \<Rightarrow>
                     (case map_of (variables (sc_rootgrp sc)) k1 of
                        None \<Rightarrow> Inl (KeyError k1)
                      | Some v \<Rightarrow>
                          (case eval_items sc items of
                             Inl e \<Rightarrow> Inl e
                           | Inr (sels, FVCOM') \<Rightarrow>
                               (case getitem (var_array v) sels of
                                  Inl e \<Rightarrow> Inl e
                                | Inr arr \<Rightarrow> Inr (arr, FVCOM')))))))"
    unfolding py_eval_def strip_prefix_append
    by (simp only: option.case Let_def tw dw)
  from sp show ?thesis
  proof
    assume "strip_prefix ([quote] @ '']'') (quote # ?tail) = None"
    then show ?thesis unfolding txt_eq res by (simp only: option.case) simp
  next
    assume "\<exists>sub'. strip_prefix ([quote] @ '']'') (quote # ?tail) = Some sub' \<and> quote \<in> set sub'"
    then obtain sub' where s': "strip_prefix ([quote] @ '']'') (quote # ?tail) = Some sub'"
      and q: "quote \<in> set sub'"
      by (elim exE conjE)
    from q have none: "parse_scoped_subscript sub' = None" by (rule parse_scoped_subscript_quote)
    from q have "sub' \<noteq> ''[]''" by (auto simp: quote_def)
    with none show ?thesis unfolding txt_eq res s' by (simp only: option.case) simp
  qed
qed

lemma strip_quotes_no_quote: "quote \<notin> set (strip_quotes s)"
  by (simp add: strip_quotes_def)

text \<open>
  When eval of the text for a key returns a value, the key is plain, the subscript is
  read as items, the items give selectors and the value is the indexed array of the
  variable of that name.
\<close>

lemma py_eval_getData:
  assumes "py_eval (getData key toExtract) sc = Inr (arr, F')"
  shows "plain_name key \<and> strip_quotes (py_str_list toExtract) \<noteq> ''[]'' \<and>
         (\<exists>items sels v.
            parse_scoped_subscript (strip_quotes (py_str_list toExtract)) = Some items \<and>
            map_of (variables (sc_rootgrp sc)) key = Some v \<and>
            eval_items sc items = Inr (sels, F') \<and>
            getitem (var_array v) sels = Inr arr)"
proof -
  let ?sub = "strip_quotes (py_str_list toExtract)"
  have plain: "plain_name key"
  proof (rule ccontr)
    assume "\<not> plain_name key"
    from py_eval_not_plain [OF this strip_quotes_no_quote, of "py_str_list toExtract" sc] assms
    show False by (simp add: getData_def)
  qed
  from assms have "py_eval (''rootgrp.variables['' @ [quote] @ key @ [quote] @ '']'' @ ?sub) sc
      = Inr (arr, F')"
    by (simp only: getData_def)
  then have "(if ?sub = ''[]'' then Inl SyntaxError
      else
        (case parse_scoped_subscript ?sub of
           None \<Rightarrow> Inl NotModelled
         | Some items \<Rightarrow>
             (case map_of (variables (sc_rootgrp sc)) key of
                None \<Rightarrow> Inl (KeyError key)
              | Some v \<Rightarrow>
                  (case eval_items sc items of
                     Inl e \<Rightarrow> Inl e
                   | Inr (sels, FVCOM') \<Rightarrow>
                       (case getitem (var_array v) sels of
                          Inl e \<Rightarrow> Inl e
                        | Inr arr \<Rightarrow> Inr (arr, FVCOM')))))) = Inr (arr, F')"
    by (simp only: py_eval_plain [OF plain])
  then have "?sub \<noteq> ''[]'' \<and> (\<exists>items sels v.
            parse_scoped_subscript ?sub = Some items \<and>
            map_of (variables (sc_rootgrp sc)) key = Some v \<and>
            eval_items sc items = Inr (sels, F') \<and>
            getitem (var_array v) sels = Inr arr)"
    by (auto split: if_splits option.splits sum.splits prod.splits)
  with plain show ?thesis by (simp only: simp_thms)
qed








section \<open>The array returned under a key\<close>










section \<open>When readFVCOM returns\<close>









section \<open>Positions selected on an axis\<close>






section \<open>The order of the file's dictionaries\<close>



section \<open>Runs in which every requested variable has clip strings of the documented forms\<close>




section \<open>The order of the file's dictionaries\<close>




section \<open>The scenario file\<close>











subsection \<open>Clip strings that use the scope\<close>








section \<open>The claims about the returned dictionary as a whole\<close>







text \<open>
  C9. Without the NetCDF library \<open>readFVCOM\<close> raises the import error with its fixed
  message, whatever the arguments, having printed nothing and opened no file; without
  NumPy \<open>getSurfaceElevation\<close> raises the import error with its fixed message. The
  exception is the result of the call.
\<close>

theorem missing_library:
  "(\<not> netCDF4_installed env \<longrightarrow>
      readFVCOM ev env fs file varList clipDims noisy =
        ([], Inl (ImportError ''Failed to load the NetCDF4 library''))) \<and>
   (\<not> numpy_installed env \<longrightarrow>
      getSurfaceElevation env to_float64 uninit Z idx = Inl (ImportError ''NumPy not found''))"
  by (simp add: readFVCOM_def getSurfaceElevation_def)

theorem missing_library_witness:
  "readFVCOM py_eval bare_python scenario_fs ''scenario.nc'' [''zeta''] None True =
     ([], Inl (ImportError ''Failed to load the NetCDF4 library'')) \<and>
   getSurfaceElevation bare_python float64_to_float64 stale_memory scenario_Z [PyInt 5, PyNaN] =
     Inl (ImportError ''NumPy not found'')"
proof -
  have "\<not> netCDF4_installed bare_python" "\<not> numpy_installed bare_python"
    by (simp_all add: bare_python_def)
  with missing_library [of bare_python py_eval scenario_fs "''scenario.nc''" "[''zeta'']" None
      True float64_to_float64 stale_memory scenario_Z "[PyInt 5, PyNaN]"]
  show ?thesis by (simp only: simp_thms)
qed




section \<open>The claims about clipped and unclipped dimensions\<close>









section \<open>The claim about the declared order of a variable's dimensions\<close>





end
